theory Spec2Isabelle
  imports Complex_Main "HOL-Library.Word" "HOL-Library.Countable"
begin

section \<open>Python values that the data provider module stores and compares\<close>

text \<open>
  The module \<^verbatim>\<open>tensorboard/data/provider.py\<close> defines an abstract class
  \<^verbatim>\<open>DataProvider\<close>, six value classes and \<^verbatim>\<open>RunTagFilter\<close>. The value
  classes store their constructor arguments and compare them with Python's \<^verbatim>\<open>!=\<close>.
  Fields are modelled at the types their docstrings give: \<^verbatim>\<open>str\<close> as \<open>string\<close>,
  integers as \<open>int\<close>, \<^verbatim>\<open>bytes\<close> as a list of octets, an optional field as
  \<open>option\<close>, and \<^verbatim>\<open>float\<close> as the type below.
\<close>

datatype error = TypeError | AttributeError | NotFound | InvalidArgument
  | PermissionDenied | Unauthenticated | Internal

type_synonym bytes = "8 word list"

text \<open>
  A Python \<^verbatim>\<open>float\<close> is an IEEE double: a finite number (here its rational value;
  \<open>FNum 0\<close> is \<^verbatim>\<open>0.0\<close>), the negative zero, an infinity, or a NaN. Only comparison
  and hashing of floats occur in the module, so no arithmetic is modelled.
\<close>

datatype pyfloat = FNum rat | FNegZero | FInf | FNegInf | FNaN

fun unsigned_zero :: "pyfloat \<Rightarrow> pyfloat" where
  "unsigned_zero FNegZero = FNum 0"
| "unsigned_zero x = x"

definition float_eq :: "pyfloat \<Rightarrow> pyfloat \<Rightarrow> bool" where
  \<comment> \<open>\<^verbatim>\<open>x == y\<close> on floats: a NaN equals nothing, \<^verbatim>\<open>-0.0 == 0.0\<close>.\<close>
  "float_eq x y = (x \<noteq> FNaN \<and> y \<noteq> FNaN \<and> unsigned_zero x = unsigned_zero y)"

definition float_ne :: "pyfloat \<Rightarrow> pyfloat \<Rightarrow> bool" where
  \<comment> \<open>\<^verbatim>\<open>x != y\<close> on floats is the negation of \<^verbatim>\<open>==\<close>: \<^verbatim>\<open>nan != nan\<close> is true.\<close>
  "float_ne x y = (\<not> float_eq x y)"

definition opt_float_eq :: "pyfloat option \<Rightarrow> pyfloat option \<Rightarrow> bool" where
  \<comment> \<open>\<^verbatim>\<open>==\<close> where each side is a float or \<^verbatim>\<open>None\<close>.\<close>
  "opt_float_eq a b =
     (case a of
        None \<Rightarrow> (case b of None \<Rightarrow> True | Some y \<Rightarrow> False)
      | Some x \<Rightarrow> (case b of None \<Rightarrow> False | Some y \<Rightarrow> float_eq x y))"

definition opt_float_ne :: "pyfloat option \<Rightarrow> pyfloat option \<Rightarrow> bool" where
  "opt_float_ne a b = (\<not> opt_float_eq a b)"

section \<open>The value classes\<close>

text \<open>
  Each class keeps its constructor arguments in slots \<^verbatim>\<open>_x\<close> and exposes each through
  a read-only property \<^verbatim>\<open>x\<close> that returns the slot. A class is a record whose field
  \<open>x\<close> is both the slot and the property. Constructors return \<open>error + object\<close>, so
  that a raise in \<^verbatim>\<open>__init__\<close> would be an \<open>Inl\<close>.
\<close>

record Run =
  run_id :: string
  run_name :: string
  start_time :: "pyfloat option"

definition Run_init :: "string \<Rightarrow> string \<Rightarrow> pyfloat option \<Rightarrow> error + Run" where
  "Run_init rid rname stime =
     Inr \<lparr>run_id = rid, run_name = rname, start_time = stime\<rparr>"

text \<open>
  \<^verbatim>\<open>_TimeSeries\<close> is the superclass of the two time series classes.
  \<^verbatim>\<open>ScalarTimeSeries\<close> adds no slot and inherits \<^verbatim>\<open>__init__\<close>;
  \<^verbatim>\<open>BlobSequenceTimeSeries\<close> adds \<^verbatim>\<open>_latest_max_index\<close> and calls the
  superclass constructor first.
\<close>

record TimeSeries =
  max_step :: int
  max_wall_time :: pyfloat
  plugin_content :: bytes
  description :: string
  display_name :: string

definition TimeSeries_init ::
  "int \<Rightarrow> pyfloat \<Rightarrow> bytes \<Rightarrow> string \<Rightarrow> string \<Rightarrow> error + TimeSeries" where
  "TimeSeries_init mstep mwall content descr dname =
     Inr \<lparr>max_step = mstep, max_wall_time = mwall, plugin_content = content,
          description = descr, display_name = dname\<rparr>"

type_synonym ScalarTimeSeries = TimeSeries

definition ScalarTimeSeries_init ::
  "int \<Rightarrow> pyfloat \<Rightarrow> bytes \<Rightarrow> string \<Rightarrow> string \<Rightarrow> error + ScalarTimeSeries" where
  "ScalarTimeSeries_init = TimeSeries_init"

record BlobSequenceTimeSeries = TimeSeries +
  latest_max_index :: int

definition BlobSequenceTimeSeries_init ::
  "int \<Rightarrow> pyfloat \<Rightarrow> int \<Rightarrow> bytes \<Rightarrow> string \<Rightarrow> string \<Rightarrow> error + BlobSequenceTimeSeries" where
  "BlobSequenceTimeSeries_init mstep mwall lmi content descr dname =
     (case TimeSeries_init mstep mwall content descr dname of
        Inl e \<Rightarrow> Inl e
      | Inr base \<Rightarrow>
          Inr \<lparr>max_step = max_step base, max_wall_time = max_wall_time base,
               plugin_content = plugin_content base, description = description base,
               display_name = display_name base, latest_max_index = lmi\<rparr>)"

text \<open>
  The slots of the two datum classes share the names \<^verbatim>\<open>_step\<close> and
  \<^verbatim>\<open>_wall_time\<close>; the fields are told apart by the record's name. The slots
  \<^verbatim>\<open>_value\<close> and \<^verbatim>\<open>_values\<close> are the fields \<open>datum_value\<close> and
  \<open>datum_values\<close>.
\<close>

record ScalarDatum =
  step :: int
  wall_time :: pyfloat
  datum_value :: pyfloat

definition ScalarDatum_init :: "int \<Rightarrow> pyfloat \<Rightarrow> pyfloat \<Rightarrow> error + ScalarDatum" where
  "ScalarDatum_init s w v =
     Inr \<lparr>ScalarDatum.step = s, ScalarDatum.wall_time = w, datum_value = v\<rparr>"

record BlobReference =
  blob_key :: string
  url :: "string option"

definition BlobReference_init :: "string \<Rightarrow> string option option \<Rightarrow> error + BlobReference" where
  \<comment> \<open>The second argument is \<open>None\<close> when the caller omits \<^verbatim>\<open>url\<close>, whose default
      is \<^verbatim>\<open>None\<close>.\<close>
  "BlobReference_init key url_arg =
     Inr \<lparr>blob_key = key, url = (case url_arg of None \<Rightarrow> None | Some u \<Rightarrow> u)\<rparr>"

record BlobSequenceDatum =
  step :: int
  wall_time :: pyfloat
  datum_values :: "BlobReference list"

definition BlobSequenceDatum_init ::
  "int \<Rightarrow> pyfloat \<Rightarrow> BlobReference list \<Rightarrow> error + BlobSequenceDatum" where
  "BlobSequenceDatum_init s w vs =
     Inr \<lparr>BlobSequenceDatum.step = s, BlobSequenceDatum.wall_time = w, datum_values = vs\<rparr>"

text \<open>
  The docstring of \<^verbatim>\<open>BlobReference\<close> asks producers for keys made of the unreserved
  characters of RFC 3986, \<^verbatim>\<open>[a-zA-Z0-9._~-]\<close>, and says that the empty string is
  not a valid key.
\<close>

definition unreserved :: "char \<Rightarrow> bool" where
  "unreserved c =
     (c \<in> set ''abcdefghijklmnopqrstuvwxyzABCDEFGHIJKLMNOPQRSTUVWXYZ0123456789._~-'')"

definition valid_blob_key :: "string \<Rightarrow> bool" where
  "valid_blob_key key = (key \<noteq> [] \<and> list_all unreserved key)"

section \<open>RunTagFilter\<close>

text \<open>
  The constructor stores \<^verbatim>\<open>None\<close> for an argument that is \<^verbatim>\<open>None\<close> and
  \<^verbatim>\<open>frozenset(arg)\<close> otherwise. The argument is a collection of strings, here a
  list, so that order and multiplicity are there to be ignored.
\<close>

record RunTagFilter =
  runs :: "string set option"
  tags :: "string set option"

definition frozenset :: "'a list \<Rightarrow> 'a set" where
  "frozenset xs = set xs"

definition RunTagFilter_init :: "string list option \<Rightarrow> string list option \<Rightarrow> RunTagFilter" where
  "RunTagFilter_init runs_arg tags_arg =
     \<lparr>runs = (case runs_arg of None \<Rightarrow> None | Some rs \<Rightarrow> Some (frozenset rs)),
      tags = (case tags_arg of None \<Rightarrow> None | Some ts \<Rightarrow> Some (frozenset ts))\<rparr>"

definition RunTagFilter_members :: "string list" where
  \<comment> \<open>The names that the body of \<^verbatim>\<open>class RunTagFilter\<close> binds.\<close>
  "RunTagFilter_members = [''__init__'', ''runs'', ''tags'', ''__repr__'']"

definition passes :: "RunTagFilter \<Rightarrow> string \<Rightarrow> string \<Rightarrow> bool" where
  \<comment> \<open>The pass condition of the constructor's docstring: a time series passes if both
      its run and its tag are included in the corresponding whitelists, \<^verbatim>\<open>None\<close>
      admitting all. The class has no method for it; a caller evaluates it on the two
      properties.\<close>
  "passes f run tag =
     ((case runs f of None \<Rightarrow> True | Some rs \<Rightarrow> run \<in> rs) \<and>
      (case tags f of None \<Rightarrow> True | Some ts \<Rightarrow> tag \<in> ts))"

section \<open>Objects, equality and hashing\<close>

text \<open>
  The argument of \<^verbatim>\<open>__eq__\<close> is any object. The objects are the instances of the
  module's classes and some built-in values. No class of the module derives from one of
  the six value classes, so \<^verbatim>\<open>isinstance(other, C)\<close> holds exactly for the
  instances of \<open>C\<close> itself.
\<close>

datatype pyobj =
    ORun Run
  | OTimeSeries TimeSeries
  | OScalarTimeSeries ScalarTimeSeries
  | OScalarDatum ScalarDatum
  | OBlobSequenceTimeSeries BlobSequenceTimeSeries
  | OBlobReference BlobReference
  | OBlobSequenceDatum BlobSequenceDatum
  | ORunTagFilter RunTagFilter
  | ONone
  | OStr string
  | OInt int
  | OFloat pyfloat

datatype pyclass =
    Run_class | TimeSeries_class | ScalarTimeSeries_class | ScalarDatum_class
  | BlobSequenceTimeSeries_class | BlobReference_class | BlobSequenceDatum_class
  | RunTagFilter_class | NoneType_class | str_class | int_class | float_class

fun type_of :: "pyobj \<Rightarrow> pyclass" where
  "type_of (ORun x) = Run_class"
| "type_of (OTimeSeries x) = TimeSeries_class"
| "type_of (OScalarTimeSeries x) = ScalarTimeSeries_class"
| "type_of (OScalarDatum x) = ScalarDatum_class"
| "type_of (OBlobSequenceTimeSeries x) = BlobSequenceTimeSeries_class"
| "type_of (OBlobReference x) = BlobReference_class"
| "type_of (OBlobSequenceDatum x) = BlobSequenceDatum_class"
| "type_of (ORunTagFilter x) = RunTagFilter_class"
| "type_of ONone = NoneType_class"
| "type_of (OStr x) = str_class"
| "type_of (OInt x) = int_class"
| "type_of (OFloat x) = float_class"

definition Run_eq :: "Run \<Rightarrow> pyobj \<Rightarrow> bool" where
  "Run_eq self other =
     (case other of
        ORun other' \<Rightarrow>
          if run_id self \<noteq> run_id other' then False
          else if run_name self \<noteq> run_name other' then False
          else if opt_float_ne (start_time self) (start_time other') then False
          else True
      | _ \<Rightarrow> False)"

definition ScalarTimeSeries_eq :: "ScalarTimeSeries \<Rightarrow> pyobj \<Rightarrow> bool" where
  "ScalarTimeSeries_eq self other =
     (case other of
        OScalarTimeSeries other' \<Rightarrow>
          if max_step self \<noteq> max_step other' then False
          else if float_ne (max_wall_time self) (max_wall_time other') then False
          else if plugin_content self \<noteq> plugin_content other' then False
          else if description self \<noteq> description other' then False
          else if display_name self \<noteq> display_name other' then False
          else True
      | _ \<Rightarrow> False)"

definition ScalarDatum_eq :: "ScalarDatum \<Rightarrow> pyobj \<Rightarrow> bool" where
  "ScalarDatum_eq self other =
     (case other of
        OScalarDatum other' \<Rightarrow>
          if ScalarDatum.step self \<noteq> ScalarDatum.step other' then False
          else if float_ne (ScalarDatum.wall_time self) (ScalarDatum.wall_time other') then False
          else if float_ne (datum_value self) (datum_value other') then False
          else True
      | _ \<Rightarrow> False)"

definition BlobSequenceTimeSeries_eq :: "BlobSequenceTimeSeries \<Rightarrow> pyobj \<Rightarrow> bool" where
  "BlobSequenceTimeSeries_eq self other =
     (case other of
        OBlobSequenceTimeSeries other' \<Rightarrow>
          if max_step self \<noteq> max_step other' then False
          else if float_ne (max_wall_time self) (max_wall_time other') then False
          else if latest_max_index self \<noteq> latest_max_index other' then False
          else if plugin_content self \<noteq> plugin_content other' then False
          else if description self \<noteq> description other' then False
          else if display_name self \<noteq> display_name other' then False
          else True
      | _ \<Rightarrow> False)"

definition BlobReference_eq :: "BlobReference \<Rightarrow> pyobj \<Rightarrow> bool" where
  "BlobReference_eq self other =
     (case other of
        OBlobReference other' \<Rightarrow>
          if blob_key self \<noteq> blob_key other' then False
          else if url self \<noteq> url other' then False
          else True
      | _ \<Rightarrow> False)"

fun tuple_eq :: "BlobReference list \<Rightarrow> BlobReference list \<Rightarrow> bool" where
  \<comment> \<open>\<^verbatim>\<open>==\<close> on tuples of blob references: the same length, and each pair of items
      equal by \<^verbatim>\<open>BlobReference.__eq__\<close>.\<close>
  "tuple_eq [] [] = True"
| "tuple_eq (x # xs) (y # ys) = (BlobReference_eq x (OBlobReference y) \<and> tuple_eq xs ys)"
| "tuple_eq _ _ = False"

definition tuple_ne :: "BlobReference list \<Rightarrow> BlobReference list \<Rightarrow> bool" where
  "tuple_ne xs ys = (\<not> tuple_eq xs ys)"

definition BlobSequenceDatum_eq :: "BlobSequenceDatum \<Rightarrow> pyobj \<Rightarrow> bool" where
  "BlobSequenceDatum_eq self other =
     (case other of
        OBlobSequenceDatum other' \<Rightarrow>
          if BlobSequenceDatum.step self \<noteq> BlobSequenceDatum.step other' then False
          else if float_ne (BlobSequenceDatum.wall_time self) (BlobSequenceDatum.wall_time other')
            then False
          else if tuple_ne (datum_values self) (datum_values other') then False
          else True
      | _ \<Rightarrow> False)"












section \<open>The DataProvider interface\<close>

text \<open>
  \<^verbatim>\<open>DataProvider\<close> has the metaclass \<^verbatim>\<open>abc.ABCMeta\<close>. Its body binds nine
  methods; the table pairs each name with whether the method carries the decorator
  \<^verbatim>\<open>@abc.abstractmethod\<close>.
\<close>

definition DataProvider_methods :: "(string \<times> bool) list" where
  "DataProvider_methods =
     [(''data_location'', False),
      (''list_runs'', True),
      (''list_scalars'', True),
      (''read_scalars'', True),
      (''list_tensors'', False),
      (''read_tensors'', False),
      (''list_blob_sequences'', False),
      (''read_blob_sequences'', False),
      (''read_blob'', False)]"

definition abstractmethods :: "string list" where
  \<comment> \<open>\<^verbatim>\<open>DataProvider.__abstractmethods__\<close>, as the metaclass collects it.\<close>
  "abstractmethods = map fst (filter snd DataProvider_methods)"

text \<open>
  A backend class is a direct subclass of \<^verbatim>\<open>DataProvider\<close>, given by the names of the
  methods its body defines. The metaclass leaves abstract in the subclass the abstract
  methods it does not define, and calling a class with an abstract method left raises
  \<^verbatim>\<open>TypeError\<close>.
\<close>

type_synonym backend_class = "string list"

definition remaining_abstract :: "backend_class \<Rightarrow> string list" where
  "remaining_abstract cls = filter (\<lambda>m. m \<notin> set cls) abstractmethods"

definition instantiate :: "backend_class \<Rightarrow> error + backend_class" where
  "instantiate cls = (if remaining_abstract cls = [] then Inr cls else Inl TypeError)"

text \<open>
  The bodies that \<^verbatim>\<open>DataProvider\<close> itself gives to its methods that are not abstract:
  \<^verbatim>\<open>data_location\<close> returns the empty string, the others are \<^verbatim>\<open>pass\<close> and
  return \<^verbatim>\<open>None\<close>. An instance of a backend class that does not define the method
  runs this body.
\<close>

definition DataProvider_data_location :: "'a \<Rightarrow> error + string" where
  "DataProvider_data_location experiment_id = Inr ''''"

definition DataProvider_list_tensors :: "error + pyobj" where
  "DataProvider_list_tensors = Inr ONone"

definition DataProvider_read_tensors :: "error + pyobj" where
  "DataProvider_read_tensors = Inr ONone"

definition DataProvider_list_blob_sequences ::
  "string \<Rightarrow> string \<Rightarrow> RunTagFilter option \<Rightarrow> error + pyobj" where
  "DataProvider_list_blob_sequences experiment_id plugin_name run_tag_filter = Inr ONone"

definition DataProvider_read_blob_sequences ::
  "string \<Rightarrow> string \<Rightarrow> int option \<Rightarrow> RunTagFilter option \<Rightarrow> error + pyobj" where
  "DataProvider_read_blob_sequences experiment_id plugin_name downsample run_tag_filter =
     Inr ONone"

definition DataProvider_read_blob :: "string \<Rightarrow> error + pyobj" where
  "DataProvider_read_blob key = Inr ONone"

section \<open>A conforming backend\<close>

text \<open>
  Modelled from the spec: the backend that answers \<^verbatim>\<open>list_scalars\<close>,
  \<^verbatim>\<open>read_scalars\<close>, \<^verbatim>\<open>list_blob_sequences\<close> and \<^verbatim>\<open>read_blob_sequences\<close>.
  The module only declares these operations. A nested mapping \<^verbatim>\<open>d[run][tag]\<close> is an
  association list of association lists.
\<close>

type_synonym 'a run_tag_map = "(string \<times> (string \<times> 'a) list) list"

text \<open>
  Modelled from the spec: \<open>keys d\<close> lists the run-tag pairs that have an entry in the nested
  mapping \<open>d\<close>.
\<close>

definition keys :: "'a run_tag_map \<Rightarrow> (string \<times> string) list" where
  "keys d = concat (map (\<lambda>(run, ts). map (\<lambda>(tag, v). (run, tag)) ts) d)"

text \<open>
  Modelled from the spec: \<open>narrow\<close> applies a run-tag filter to a nested mapping. An
  omitted filter includes all runs and tags. A pair passes iff the run is admitted by
  the run-set (or there is none) and the tag by the tag-set (or there is none). A run left
  with no tag has no key: absence of a key means no such data, never empty but present.
\<close>

definition narrow :: "RunTagFilter option \<Rightarrow> 'a run_tag_map \<Rightarrow> 'a run_tag_map" where
  "narrow run_tag_filter d =
     (case run_tag_filter of
        None \<Rightarrow> d
      | Some f \<Rightarrow>
          filter (\<lambda>(run, ts). ts \<noteq> [])
            (map (\<lambda>(run, ts). (run, filter (\<lambda>(tag, v). passes f run tag) ts)) d))"

text \<open>
  Modelled from the spec: \<open>map_entries\<close> turns every entry of a nested mapping into the value
  an operation returns for it.
\<close>

definition map_entries :: "('a \<Rightarrow> 'b) \<Rightarrow> 'a run_tag_map \<Rightarrow> 'b run_tag_map" where
  "map_entries g d = map (\<lambda>(run, ts). (run, map (\<lambda>(tag, v). (tag, g v)) ts)) d"

text \<open>
  Modelled from the spec: what a backend holds of one time series, its metadata and its
  points.
\<close>

record ('m, 'p) series =
  metadata :: 'm
  points :: "'p list"

text \<open>
  Modelled from the spec: a backend. For an experiment and a plugin it resolves the query
  against its own storage to the time series that exist (the ground truth), or signals an
  error of the taxonomy (\<open>NotFound\<close> when the experiment does not exist). The
  downsampling strategy is the backend's own.
\<close>

record backend =
  scalar_store :: "string \<Rightarrow> string \<Rightarrow> error + (ScalarTimeSeries, ScalarDatum) series run_tag_map"
  blob_sequence_store ::
    "string \<Rightarrow> string \<Rightarrow> error + (BlobSequenceTimeSeries, BlobSequenceDatum) series run_tag_map"
  downsample_scalars :: "int option \<Rightarrow> ScalarDatum list \<Rightarrow> ScalarDatum list"
  downsample_blob_sequences :: "int option \<Rightarrow> BlobSequenceDatum list \<Rightarrow> BlobSequenceDatum list"

text \<open>
  Modelled from the spec: the shape the four operations share. The backend's error, if it
  signals one, is the result; otherwise the result holds, for each entry of the ground truth
  whose run and tag pass the filter, the value the operation returns for it.
\<close>

definition query ::
  "('s \<Rightarrow> 'r) \<Rightarrow> error + 's run_tag_map \<Rightarrow> RunTagFilter option \<Rightarrow> error + 'r run_tag_map" where
  "query g resolved run_tag_filter =
     (case resolved of
        Inl e \<Rightarrow> Inl e
      | Inr truth \<Rightarrow> Inr (map_entries g (narrow run_tag_filter truth)))"

text \<open>
  Modelled from the spec: \<^verbatim>\<open>list_scalars\<close> returns the metadata of each scalar time
  series of the ground truth whose run and tag pass the filter.
\<close>

definition list_scalars ::
  "backend \<Rightarrow> string \<Rightarrow> string \<Rightarrow> RunTagFilter option \<Rightarrow> error + ScalarTimeSeries run_tag_map" where
  "list_scalars B experiment_id plugin_name run_tag_filter =
     query metadata (scalar_store B experiment_id plugin_name) run_tag_filter"

text \<open>
  Modelled from the spec: \<^verbatim>\<open>read_scalars\<close> returns the points, downsampled, of each
  scalar time series of the ground truth whose run and tag pass the filter.
\<close>

definition read_scalars ::
  "backend \<Rightarrow> string \<Rightarrow> string \<Rightarrow> int option \<Rightarrow> RunTagFilter option
     \<Rightarrow> error + ScalarDatum list run_tag_map" where
  "read_scalars B experiment_id plugin_name downsample run_tag_filter =
     query (\<lambda>s. downsample_scalars B downsample (points s))
       (scalar_store B experiment_id plugin_name) run_tag_filter"

text \<open>
  Modelled from the spec: \<^verbatim>\<open>list_blob_sequences\<close> has the shape of
  \<^verbatim>\<open>list_scalars\<close>, for the blob sequence time series.
\<close>

definition list_blob_sequences ::
  "backend \<Rightarrow> string \<Rightarrow> string \<Rightarrow> RunTagFilter option
     \<Rightarrow> error + BlobSequenceTimeSeries run_tag_map" where
  "list_blob_sequences B experiment_id plugin_name run_tag_filter =
     query metadata (blob_sequence_store B experiment_id plugin_name) run_tag_filter"

text \<open>
  Modelled from the spec: \<^verbatim>\<open>read_blob_sequences\<close> has the shape of
  \<^verbatim>\<open>read_scalars\<close>, for the blob sequence time series.
\<close>

definition read_blob_sequences ::
  "backend \<Rightarrow> string \<Rightarrow> string \<Rightarrow> int option \<Rightarrow> RunTagFilter option
     \<Rightarrow> error + BlobSequenceDatum list run_tag_map" where
  "read_blob_sequences B experiment_id plugin_name downsample run_tag_filter =
     query (\<lambda>s. downsample_blob_sequences B downsample (points s))
       (blob_sequence_store B experiment_id plugin_name) run_tag_filter"

text \<open>
  Modelled from the spec: the backend of the spec's concrete scenario. Experiment
  \<^verbatim>\<open>exp1\<close> has the run \<^verbatim>\<open>train\<close> with the scalar tag \<^verbatim>\<open>loss\<close> at the steps
  0, 1, 2 with the values 1.0, 0.5, 0.25; an experiment it does not know is not found. It
  downsamples by keeping the first points up to the cap.
\<close>

definition exp1_backend :: backend where
  "exp1_backend =
     \<lparr>scalar_store = (\<lambda>experiment_id plugin_name.
        if experiment_id \<noteq> ''exp1'' then Inl NotFound
        else if plugin_name \<noteq> ''scalars'' then Inr []
        else Inr [(''train'', [(''loss'',
          \<lparr>metadata = \<lparr>max_step = 2, max_wall_time = FNum 2, plugin_content = [],
                        description = '''', display_name = ''''\<rparr>,
           points =
             [\<lparr>ScalarDatum.step = 0, ScalarDatum.wall_time = FNum 0, datum_value = FNum 1\<rparr>,
              \<lparr>ScalarDatum.step = 1, ScalarDatum.wall_time = FNum 1, datum_value = FNum (1/2)\<rparr>,
              \<lparr>ScalarDatum.step = 2, ScalarDatum.wall_time = FNum 2, datum_value = FNum (1/4)\<rparr>]\<rparr>)])]),
      blob_sequence_store = (\<lambda>experiment_id plugin_name.
        if experiment_id \<noteq> ''exp1'' then Inl NotFound else Inr []),
      downsample_scalars = (\<lambda>downsample ps.
        case downsample of None \<Rightarrow> ps | Some n \<Rightarrow> take (nat n) ps),
      downsample_blob_sequences = (\<lambda>downsample ps.
        case downsample of None \<Rightarrow> ps | Some n \<Rightarrow> take (nat n) ps)\<rparr>"

section \<open>Equality of value objects\<close>

text \<open>
  Each \<^verbatim>\<open>__eq__\<close> is a chain of \<^verbatim>\<open>!=\<close> tests on the slots; the lemmas read the
  chain as a conjunction of \<^verbatim>\<open>==\<close> on the fields.
\<close>

lemma float_eq_refl_iff: "float_eq x x = (x \<noteq> FNaN)"
  by (simp add: float_eq_def)

lemma opt_float_eq_refl_iff: "opt_float_eq a a = (a \<noteq> Some FNaN)"
  by (cases a) (simp_all add: opt_float_eq_def float_eq_refl_iff)

lemma Run_eq_iff:
  "Run_eq a (ORun b) =
     (run_id a = run_id b \<and> run_name a = run_name b \<and>
      opt_float_eq (start_time a) (start_time b))"
  by (simp add: Run_eq_def opt_float_ne_def)

lemma ScalarTimeSeries_eq_iff:
  "ScalarTimeSeries_eq a (OScalarTimeSeries b) =
     (max_step a = max_step b \<and> float_eq (max_wall_time a) (max_wall_time b) \<and>
      plugin_content a = plugin_content b \<and> description a = description b \<and>
      display_name a = display_name b)"
  by (simp add: ScalarTimeSeries_eq_def float_ne_def)

lemma ScalarDatum_eq_iff:
  "ScalarDatum_eq a (OScalarDatum b) =
     (ScalarDatum.step a = ScalarDatum.step b \<and>
      float_eq (ScalarDatum.wall_time a) (ScalarDatum.wall_time b) \<and>
      float_eq (datum_value a) (datum_value b))"
  by (simp add: ScalarDatum_eq_def float_ne_def)

lemma BlobSequenceTimeSeries_eq_iff:
  "BlobSequenceTimeSeries_eq a (OBlobSequenceTimeSeries b) =
     (max_step a = max_step b \<and> float_eq (max_wall_time a) (max_wall_time b) \<and>
      latest_max_index a = latest_max_index b \<and>
      plugin_content a = plugin_content b \<and> description a = description b \<and>
      display_name a = display_name b)"
  by (simp add: BlobSequenceTimeSeries_eq_def float_ne_def)

lemma BlobReference_eq_iff:
  "BlobReference_eq a (OBlobReference b) = (blob_key a = blob_key b \<and> url a = url b)"
  by (simp add: BlobReference_eq_def)

lemma BlobReference_eq_is_equality: "BlobReference_eq a (OBlobReference b) = (a = b)"
  by (cases a, cases b) (simp add: BlobReference_eq_iff)

lemma tuple_eq_is_equality: "tuple_eq xs ys = (xs = ys)"
  by (induction xs ys rule: tuple_eq.induct) (simp_all add: BlobReference_eq_is_equality)

lemma BlobSequenceDatum_eq_iff:
  "BlobSequenceDatum_eq a (OBlobSequenceDatum b) =
     (BlobSequenceDatum.step a = BlobSequenceDatum.step b \<and>
      float_eq (BlobSequenceDatum.wall_time a) (BlobSequenceDatum.wall_time b) \<and>
      datum_values a = datum_values b)"
  by (simp add: BlobSequenceDatum_eq_def float_ne_def tuple_ne_def tuple_eq_is_equality)

text \<open>
  Claim C3, as the code has it. Two instances of the same value class are equal iff every
  pair of corresponding fields compares equal under Python's \<^verbatim>\<open>==\<close>, for which a
  NaN float is unequal to itself. So one pair of fields that compares unequal makes the
  instances unequal, and an instance equals an instance built from the same field values
  iff no float field is a NaN.
\<close>

theorem value_equality_is_fieldwise:
  "Run_eq r (ORun r') =
     (run_id r = run_id r' \<and> run_name r = run_name r' \<and>
      opt_float_eq (start_time r) (start_time r'))
   \<and> ScalarTimeSeries_eq s (OScalarTimeSeries s') =
     (max_step s = max_step s' \<and> float_eq (max_wall_time s) (max_wall_time s') \<and>
      plugin_content s = plugin_content s' \<and> description s = description s' \<and>
      display_name s = display_name s')
   \<and> BlobSequenceTimeSeries_eq b (OBlobSequenceTimeSeries b') =
     (max_step b = max_step b' \<and> float_eq (max_wall_time b) (max_wall_time b') \<and>
      latest_max_index b = latest_max_index b' \<and>
      plugin_content b = plugin_content b' \<and> description b = description b' \<and>
      display_name b = display_name b')
   \<and> ScalarDatum_eq d (OScalarDatum d') =
     (ScalarDatum.step d = ScalarDatum.step d' \<and>
      float_eq (ScalarDatum.wall_time d) (ScalarDatum.wall_time d') \<and>
      float_eq (datum_value d) (datum_value d'))
   \<and> BlobReference_eq k (OBlobReference k') = (blob_key k = blob_key k' \<and> url k = url k')
   \<and> BlobSequenceDatum_eq q (OBlobSequenceDatum q') =
     (BlobSequenceDatum.step q = BlobSequenceDatum.step q' \<and>
      float_eq (BlobSequenceDatum.wall_time q) (BlobSequenceDatum.wall_time q') \<and>
      datum_values q = datum_values q')
   \<and> Run_eq r (ORun r) = (start_time r \<noteq> Some FNaN)
   \<and> ScalarTimeSeries_eq s (OScalarTimeSeries s) = (max_wall_time s \<noteq> FNaN)
   \<and> BlobSequenceTimeSeries_eq b (OBlobSequenceTimeSeries b) = (max_wall_time b \<noteq> FNaN)
   \<and> ScalarDatum_eq d (OScalarDatum d) =
     (ScalarDatum.wall_time d \<noteq> FNaN \<and> datum_value d \<noteq> FNaN)
   \<and> BlobReference_eq k (OBlobReference k) = True
   \<and> BlobSequenceDatum_eq q (OBlobSequenceDatum q) = (BlobSequenceDatum.wall_time q \<noteq> FNaN)"
  by (simp add: Run_eq_iff ScalarTimeSeries_eq_iff BlobSequenceTimeSeries_eq_iff
      ScalarDatum_eq_iff BlobReference_eq_iff BlobSequenceDatum_eq_iff
      float_eq_refl_iff opt_float_eq_refl_iff)

text \<open>
  Claim C3 as stated fails: two \<^verbatim>\<open>ScalarDatum\<close> objects constructed with identical
  field values, the value a NaN, are unequal, since \<^verbatim>\<open>nan != nan\<close> holds.
\<close>

theorem nan_datum_counterexample:
  "ScalarDatum_init 0 (FNum 0) FNaN =
     Inr \<lparr>ScalarDatum.step = 0, ScalarDatum.wall_time = FNum 0, datum_value = FNaN\<rparr>
   \<and> \<not> ScalarDatum_eq
         \<lparr>ScalarDatum.step = 0, ScalarDatum.wall_time = FNum 0, datum_value = FNaN\<rparr>
         (OScalarDatum
           \<lparr>ScalarDatum.step = 0, ScalarDatum.wall_time = FNum 0, datum_value = FNaN\<rparr>)"
  by (simp add: ScalarDatum_init_def ScalarDatum_eq_def float_ne_def float_eq_def)

section \<open>Hashing of value objects\<close>





















section \<open>Equality across classes\<close>

text \<open>
  Claim C10. For an instance of one value class and an object of any other type,
  \<^verbatim>\<open>__eq__\<close> returns \<^verbatim>\<open>False\<close>: the \<^verbatim>\<open>isinstance\<close> test comes first. A
  \<^verbatim>\<open>ScalarTimeSeries\<close> and a \<^verbatim>\<open>BlobSequenceTimeSeries\<close> with the same five base
  fields are unequal in both directions.
\<close>

theorem eq_across_types_is_False:
  "(type_of x \<noteq> Run_class \<longrightarrow> \<not> Run_eq r x)
   \<and> (type_of x \<noteq> ScalarTimeSeries_class \<longrightarrow> \<not> ScalarTimeSeries_eq s x)
   \<and> (type_of x \<noteq> BlobSequenceTimeSeries_class \<longrightarrow> \<not> BlobSequenceTimeSeries_eq b x)
   \<and> (type_of x \<noteq> ScalarDatum_class \<longrightarrow> \<not> ScalarDatum_eq d x)
   \<and> (type_of x \<noteq> BlobReference_class \<longrightarrow> \<not> BlobReference_eq k x)
   \<and> (type_of x \<noteq> BlobSequenceDatum_class \<longrightarrow> \<not> BlobSequenceDatum_eq q x)
   \<and> \<not> ScalarTimeSeries_eq
         \<lparr>max_step = ms, max_wall_time = mw, plugin_content = pc, description = de,
          display_name = dn\<rparr>
         (OBlobSequenceTimeSeries
           \<lparr>max_step = ms, max_wall_time = mw, plugin_content = pc, description = de,
            display_name = dn, latest_max_index = lmi\<rparr>)
   \<and> \<not> BlobSequenceTimeSeries_eq
         \<lparr>max_step = ms, max_wall_time = mw, plugin_content = pc, description = de,
          display_name = dn, latest_max_index = lmi\<rparr>
         (OScalarTimeSeries
           \<lparr>max_step = ms, max_wall_time = mw, plugin_content = pc, description = de,
            display_name = dn\<rparr>)"
  by (cases x)
    (simp_all add: Run_eq_def ScalarTimeSeries_eq_def BlobSequenceTimeSeries_eq_def
      ScalarDatum_eq_def BlobReference_eq_def BlobSequenceDatum_eq_def)

theorem eq_across_types_is_False_witness:
  "type_of (OScalarDatum
      \<lparr>ScalarDatum.step = 1, ScalarDatum.wall_time = FNum 2, datum_value = FNum 3\<rparr>)
     \<noteq> Run_class
   \<and> \<not> Run_eq \<lparr>run_id = ''r1'', run_name = ''train'', start_time = Some (FNum 2)\<rparr>
        (OScalarDatum
          \<lparr>ScalarDatum.step = 1, ScalarDatum.wall_time = FNum 2, datum_value = FNum 3\<rparr>)
   \<and> type_of (OBlobSequenceTimeSeries
        \<lparr>max_step = 2, max_wall_time = FNum 5, plugin_content = [1, 2],
         description = ''loss'', display_name = ''Loss'', latest_max_index = 0\<rparr>)
     \<noteq> ScalarTimeSeries_class
   \<and> \<not> ScalarTimeSeries_eq
        \<lparr>max_step = 2, max_wall_time = FNum 5, plugin_content = [1, 2],
         description = ''loss'', display_name = ''Loss''\<rparr>
        (OBlobSequenceTimeSeries
          \<lparr>max_step = 2, max_wall_time = FNum 5, plugin_content = [1, 2],
           description = ''loss'', display_name = ''Loss'', latest_max_index = 0\<rparr>)
   \<and> type_of (OScalarTimeSeries
        \<lparr>max_step = 2, max_wall_time = FNum 5, plugin_content = [1, 2],
         description = ''loss'', display_name = ''Loss''\<rparr>)
     \<noteq> BlobSequenceTimeSeries_class
   \<and> \<not> BlobSequenceTimeSeries_eq
        \<lparr>max_step = 2, max_wall_time = FNum 5, plugin_content = [1, 2],
         description = ''loss'', display_name = ''Loss'', latest_max_index = 0\<rparr>
        (OScalarTimeSeries
          \<lparr>max_step = 2, max_wall_time = FNum 5, plugin_content = [1, 2],
           description = ''loss'', display_name = ''Loss''\<rparr>)
   \<and> type_of (OBlobSequenceDatum
        \<lparr>BlobSequenceDatum.step = 1, BlobSequenceDatum.wall_time = FNum 2, datum_values = []\<rparr>)
     \<noteq> ScalarDatum_class
   \<and> \<not> ScalarDatum_eq
        \<lparr>ScalarDatum.step = 1, ScalarDatum.wall_time = FNum 2, datum_value = FNum 3\<rparr>
        (OBlobSequenceDatum
          \<lparr>BlobSequenceDatum.step = 1, BlobSequenceDatum.wall_time = FNum 2,
           datum_values = []\<rparr>)
   \<and> type_of ONone \<noteq> BlobReference_class
   \<and> \<not> BlobReference_eq \<lparr>blob_key = ''k1'', url = None\<rparr> ONone
   \<and> type_of (OStr ''k1'') \<noteq> BlobSequenceDatum_class
   \<and> \<not> BlobSequenceDatum_eq
        \<lparr>BlobSequenceDatum.step = 1, BlobSequenceDatum.wall_time = FNum 2, datum_values = []\<rparr>
        (OStr ''k1'')"
  (is "?t1 \<and> \<not> Run_eq ?r ?x1 \<and> ?t2 \<and> \<not> ScalarTimeSeries_eq ?s ?x2
     \<and> ?t3 \<and> \<not> BlobSequenceTimeSeries_eq ?b ?x3 \<and> ?t4 \<and> \<not> ScalarDatum_eq ?d ?x4
     \<and> ?t5 \<and> \<not> BlobReference_eq ?k ?x5 \<and> ?t6 \<and> \<not> BlobSequenceDatum_eq ?q ?x6")
proof -
  have t1: ?t1 and t2: ?t2 and t3: ?t3 and t4: ?t4 and t5: ?t5 and t6: ?t6
    by simp_all
  note T = eq_across_types_is_False
  have n1: "\<not> Run_eq ?r ?x1"
    by (rule T [where x = ?x1, THEN conjunct1, THEN mp, OF t1])
  have n2: "\<not> ScalarTimeSeries_eq ?s ?x2"
    by (rule T [where x = ?x2, THEN conjunct2, THEN conjunct1, THEN mp, OF t2])
  have n3: "\<not> BlobSequenceTimeSeries_eq ?b ?x3"
    by (rule T [where x = ?x3, THEN conjunct2, THEN conjunct2, THEN conjunct1, THEN mp, OF t3])
  have n4: "\<not> ScalarDatum_eq ?d ?x4"
    by (rule T [where x = ?x4, THEN conjunct2, THEN conjunct2, THEN conjunct2, THEN conjunct1,
        THEN mp, OF t4])
  have n5: "\<not> BlobReference_eq ?k ?x5"
    by (rule T [where x = ?x5, THEN conjunct2, THEN conjunct2, THEN conjunct2, THEN conjunct2,
        THEN conjunct1, THEN mp, OF t5])
  have n6: "\<not> BlobSequenceDatum_eq ?q ?x6"
    by (rule T [where x = ?x6, THEN conjunct2, THEN conjunct2, THEN conjunct2, THEN conjunct2,
        THEN conjunct2, THEN conjunct1, THEN mp, OF t6])
  show ?thesis
    by (intro conjI t1 n1 t2 n2 t3 n3 t4 n4 t5 n5 t6 n6)
qed

section \<open>Construction\<close>

text \<open>
  Claim C9. No constructor of a value class validates: for all field values the constructor
  returns an object and raises nothing, and each property of the object is the value passed
  for the field. A \<^verbatim>\<open>BlobReference\<close> built without a \<^verbatim>\<open>url\<close> has the url
  \<^verbatim>\<open>None\<close>.
\<close>

theorem construction_stores_arguments:
  "(\<exists>r. Run_init rid rname stime = Inr r
        \<and> run_id r = rid \<and> run_name r = rname \<and> start_time r = stime)
   \<and> (\<exists>s. ScalarTimeSeries_init ms mw pc de dn = Inr s
        \<and> max_step s = ms \<and> max_wall_time s = mw \<and> plugin_content s = pc
        \<and> description s = de \<and> display_name s = dn)
   \<and> (\<exists>b. BlobSequenceTimeSeries_init ms mw lmi pc de dn = Inr b
        \<and> max_step b = ms \<and> max_wall_time b = mw \<and> latest_max_index b = lmi
        \<and> plugin_content b = pc \<and> description b = de \<and> display_name b = dn)
   \<and> (\<exists>d. ScalarDatum_init st wt v = Inr d
        \<and> ScalarDatum.step d = st \<and> ScalarDatum.wall_time d = wt \<and> datum_value d = v)
   \<and> (\<exists>k. BlobReference_init key (Some u) = Inr k \<and> blob_key k = key \<and> url k = u)
   \<and> (\<exists>k. BlobReference_init key None = Inr k \<and> blob_key k = key \<and> url k = None)
   \<and> (\<exists>q. BlobSequenceDatum_init st wt vs = Inr q
        \<and> BlobSequenceDatum.step q = st \<and> BlobSequenceDatum.wall_time q = wt
        \<and> datum_values q = vs)"
  by (simp add: Run_init_def ScalarTimeSeries_init_def TimeSeries_init_def
      BlobSequenceTimeSeries_init_def ScalarDatum_init_def BlobReference_init_def
      BlobSequenceDatum_init_def)

text \<open>
  Claim C8, as the code has it. Construction of a \<^verbatim>\<open>BlobReference\<close> rejects no key:
  for every string, valid or not, it returns an object whose \<^verbatim>\<open>blob_key\<close> is the
  string unchanged, and the body that \<^verbatim>\<open>DataProvider\<close> gives \<^verbatim>\<open>read_blob\<close>
  rejects no key either. The empty string is not a valid key by the docstring, which binds
  the producers of keys; nothing in the module enforces it.
\<close>

theorem blob_key_is_never_rejected:
  "\<not> valid_blob_key []
   \<and> (\<exists>k. BlobReference_init key url_arg = Inr k \<and> blob_key k = key)
   \<and> DataProvider_read_blob key = Inr ONone"
  by (simp add: valid_blob_key_def BlobReference_init_def DataProvider_read_blob_def)

text \<open>
  Claim C8 as stated fails: the constructor accepts the empty key, and a key with a
  character outside the unreserved set.
\<close>

theorem empty_blob_key_counterexample:
  "BlobReference_init '''' None = Inr \<lparr>blob_key = '''', url = None\<rparr>
   \<and> \<not> valid_blob_key ''a/b''
   \<and> BlobReference_init ''a/b'' None = Inr \<lparr>blob_key = ''a/b'', url = None\<rparr>"
  by (simp add: BlobReference_init_def valid_blob_key_def unreserved_def)

section \<open>Properties of RunTagFilter\<close>

text \<open>
  Claim C6. Order and multiplicity of the constructor's collections are irrelevant: two
  pairs of arguments with the same elements (each argument \<^verbatim>\<open>None\<close> or a collection)
  give the same filter, so a collection and its deduplication give the same filter, and an
  argument \<^verbatim>\<open>None\<close> is stored as \<^verbatim>\<open>None\<close>, which admits all.
\<close>

theorem filter_ignores_order_and_multiplicity:
  assumes "map_option set rs = map_option set rs'"
    and "map_option set ts = map_option set ts'"
  shows "RunTagFilter_init rs ts = RunTagFilter_init rs' ts'
   \<and> runs (RunTagFilter_init rs ts) = runs (RunTagFilter_init rs' ts')
   \<and> tags (RunTagFilter_init rs ts) = tags (RunTagFilter_init rs' ts')
   \<and> RunTagFilter_init (map_option remdups rs) (map_option remdups ts) = RunTagFilter_init rs ts
   \<and> runs (RunTagFilter_init None ts) = None
   \<and> tags (RunTagFilter_init rs None) = None
   \<and> passes (RunTagFilter_init None None) run tag"
proof -
  have same: "RunTagFilter_init rs ts = RunTagFilter_init rs' ts'"
    using assms
    by (cases rs; cases rs'; cases ts; cases ts')
      (simp_all add: RunTagFilter_init_def frozenset_def)
  have dedup: "RunTagFilter_init (map_option remdups rs) (map_option remdups ts)
      = RunTagFilter_init rs ts"
    by (cases rs; cases ts) (simp_all add: RunTagFilter_init_def frozenset_def)
  have none: "runs (RunTagFilter_init None ts) = None" "tags (RunTagFilter_init rs None) = None"
    "passes (RunTagFilter_init None None) run tag"
    by (simp_all add: RunTagFilter_init_def passes_def)
  from same dedup none show ?thesis by simp
qed

theorem filter_ignores_order_and_multiplicity_witness:
  "map_option set (Some [''a'', ''b'', ''a'']) = map_option set (Some [''b'', ''a''])
   \<and> map_option set (None :: string list option) = map_option set None
   \<and> RunTagFilter_init (Some [''a'', ''b'', ''a'']) None = RunTagFilter_init (Some [''b'', ''a'']) None
   \<and> runs (RunTagFilter_init (Some [''a'', ''b'', ''a'']) None) = Some {''a'', ''b''}"
proof -
  have h1: "map_option set (Some [''a'', ''b'', ''a'']) = map_option set (Some [''b'', ''a''])"
    by auto
  have h2: "map_option set (None :: string list option) = map_option set None"
    by simp
  have r: "runs (RunTagFilter_init (Some [''a'', ''b'', ''a'']) None) = Some {''a'', ''b''}"
    by (auto simp: RunTagFilter_init_def frozenset_def)
  from filter_ignores_order_and_multiplicity [OF h1 h2] h1 h2 r show ?thesis by blast
qed

text \<open>
  Claim C1, as the code has it. \<^verbatim>\<open>RunTagFilter\<close> has no operation \<^verbatim>\<open>admits\<close>: it
  has the two properties \<^verbatim>\<open>runs\<close> and \<^verbatim>\<open>tags\<close>. The pass condition of its
  docstring, which a caller evaluates on the two properties, is a function of the two stored
  sets and the two strings, defined for all strings: it holds iff (the run-set is absent or
  the run is in it) and (the tag-set is absent or the tag is in it). For the filter built
  from \<^verbatim>\<open>None\<close> and \<^verbatim>\<open>None\<close> it holds for every run and tag; for the filter with the
  runs a and b and no tag-set it holds for the runs a and b and fails for the run c.
\<close>

theorem pass_condition_on_properties:
  "''runs'' \<in> set RunTagFilter_members \<and> ''tags'' \<in> set RunTagFilter_members
   \<and> passes f run tag =
       ((runs f = None \<or> (\<exists>rs. runs f = Some rs \<and> run \<in> rs)) \<and>
        (tags f = None \<or> (\<exists>ts. tags f = Some ts \<and> tag \<in> ts)))
   \<and> passes (RunTagFilter_init None None) run tag
   \<and> passes (RunTagFilter_init (Some [''a'', ''b'']) None) ''a'' tag
   \<and> passes (RunTagFilter_init (Some [''a'', ''b'']) None) ''b'' tag
   \<and> \<not> passes (RunTagFilter_init (Some [''a'', ''b'']) None) ''c'' tag"
proof -
  have "passes f run tag =
       ((runs f = None \<or> (\<exists>rs. runs f = Some rs \<and> run \<in> rs)) \<and>
        (tags f = None \<or> (\<exists>ts. tags f = Some ts \<and> tag \<in> ts)))"
    by (cases "runs f"; cases "tags f") (simp_all add: passes_def)
  then show ?thesis
    by (simp add: RunTagFilter_members_def RunTagFilter_init_def frozenset_def passes_def)
qed

text \<open>
  Claim C1 as stated fails: the class body binds no member named \<^verbatim>\<open>admits\<close>.
\<close>

theorem admits_counterexample: "''admits'' \<notin> set RunTagFilter_members"
  by (simp add: RunTagFilter_members_def)

section \<open>Properties of the interface\<close>

text \<open>
  Claim C7. For every experiment id, the body that \<^verbatim>\<open>DataProvider\<close> gives
  \<^verbatim>\<open>data_location\<close> returns the empty string and raises nothing.
\<close>

theorem data_location_default: "DataProvider_data_location experiment_id = Inr ''''"
  by (simp add: DataProvider_data_location_def)

lemma abstractmethods_eval: "abstractmethods = [''list_runs'', ''list_scalars'', ''read_scalars'']"
  by (simp add: abstractmethods_def DataProvider_methods_def)

text \<open>
  Claim C2, as the code has it. Three of the operations are mandatory: a backend class can be
  instantiated iff its body defines \<^verbatim>\<open>list_runs\<close>, \<^verbatim>\<open>list_scalars\<close> and
  \<^verbatim>\<open>read_scalars\<close>. The operations \<^verbatim>\<open>list_blob_sequences\<close>,
  \<^verbatim>\<open>read_blob_sequences\<close> and \<^verbatim>\<open>read_blob\<close> are not abstract, like
  \<^verbatim>\<open>list_tensors\<close> and \<^verbatim>\<open>read_tensors\<close>: a backend class may leave them
  out, and then they run the body of \<^verbatim>\<open>DataProvider\<close>, which returns \<^verbatim>\<open>None\<close>.
\<close>

theorem mandatory_operations:
  "(instantiate cls = Inr cls) = ({''list_runs'', ''list_scalars'', ''read_scalars''} \<subseteq> set cls)
   \<and> (instantiate cls = Inl TypeError)
       = (\<not> {''list_runs'', ''list_scalars'', ''read_scalars''} \<subseteq> set cls)
   \<and> abstractmethods = [''list_runs'', ''list_scalars'', ''read_scalars'']
   \<and> DataProvider_list_blob_sequences experiment_id plugin_name run_tag_filter = Inr ONone
   \<and> DataProvider_read_blob_sequences experiment_id plugin_name downsample run_tag_filter
       = Inr ONone
   \<and> DataProvider_read_blob key = Inr ONone"
  by (auto simp: instantiate_def remaining_abstract_def abstractmethods_eval
      DataProvider_list_blob_sequences_def DataProvider_read_blob_sequences_def
      DataProvider_read_blob_def)

text \<open>
  Claim C2 as stated fails: a backend class whose body defines only the three abstract
  methods, and so no \<^verbatim>\<open>list_blob_sequences\<close>, \<^verbatim>\<open>read_blob_sequences\<close> or
  \<^verbatim>\<open>read_blob\<close>, is instantiated without an error.
\<close>

theorem blob_operations_optional_counterexample:
  "''list_blob_sequences'' \<notin> set [''list_runs'', ''list_scalars'', ''read_scalars'']
   \<and> ''read_blob_sequences'' \<notin> set [''list_runs'', ''list_scalars'', ''read_scalars'']
   \<and> ''read_blob'' \<notin> set [''list_runs'', ''list_scalars'', ''read_scalars'']
   \<and> instantiate [''list_runs'', ''list_scalars'', ''read_scalars'']
       = Inr [''list_runs'', ''list_scalars'', ''read_scalars'']"
  by (simp add: instantiate_def remaining_abstract_def abstractmethods_eval)

section \<open>Results of a conforming backend\<close>

lemma set_keys: "set (keys d) = {(run, tag). \<exists>ts v. (run, ts) \<in> set d \<and> (tag, v) \<in> set ts}"
  by (induction d) (auto simp: keys_def)

lemma in_set_not_Nil: "x \<in> set xs \<Longrightarrow> xs \<noteq> []"
  by auto

lemma in_narrow:
  "(run, ts') \<in> set (narrow (Some f) d) =
     (ts' \<noteq> [] \<and> (\<exists>ts. (run, ts) \<in> set d \<and> ts' = filter (\<lambda>(tag, v). passes f run tag) ts))"
  by (auto simp: narrow_def)

lemma keys_narrow_mem:
  "(run, tag) \<in> set (keys (narrow (Some f) d)) =
      ((run, tag) \<in> set (keys d) \<and> passes f run tag)"
proof
  assume "(run, tag) \<in> set (keys (narrow (Some f) d))"
  then obtain ts' v where a: "(run, ts') \<in> set (narrow (Some f) d)" and b: "(tag, v) \<in> set ts'"
    unfolding set_keys by blast
  from a obtain ts where c: "(run, ts) \<in> set d"
    and d: "ts' = filter (\<lambda>(tag, v). passes f run tag) ts"
    unfolding in_narrow by blast
  from b d have "(tag, v) \<in> set ts" "passes f run tag" by simp_all
  with c show "(run, tag) \<in> set (keys d) \<and> passes f run tag"
    unfolding set_keys by blast
next
  assume h: "(run, tag) \<in> set (keys d) \<and> passes f run tag"
  then obtain ts v where c: "(run, ts) \<in> set d" and b: "(tag, v) \<in> set ts"
    unfolding set_keys by blast
  let ?ts' = "filter (\<lambda>(tag, v). passes f run tag) ts"
  from b h have m: "(tag, v) \<in> set ?ts'" by simp
  then have "?ts' \<noteq> []" by (rule in_set_not_Nil)
  with c have "(run, ?ts') \<in> set (narrow (Some f) d)"
    unfolding in_narrow by blast
  with m show "(run, tag) \<in> set (keys (narrow (Some f) d))"
    unfolding set_keys by blast
qed

lemma keys_map_entries: "keys (map_entries g d) = keys d"
  by (induction d) (auto simp: keys_def map_entries_def case_prod_beta)

lemma narrow_None: "narrow None d = d"
  by (simp add: narrow_def)

lemma set_keys_narrow:
  "set (keys (narrow (Some f) d)) = {(run, tag). (run, tag) \<in> set (keys d) \<and> passes f run tag}"
  using keys_narrow_mem [of _ _ f d] by auto

lemma query_keys:
  assumes "resolved = Inr truth"
  shows "\<exists>d d0. query g resolved flt = Inr d \<and> query g resolved None = Inr d0
      \<and> set (keys d0) = set (keys truth) \<and> set (keys d) \<subseteq> set (keys d0)
      \<and> (\<forall>f. flt = Some f \<longrightarrow>
            set (keys d) = {(run, tag). (run, tag) \<in> set (keys truth) \<and> passes f run tag})"
proof (cases flt)
  case None
  with assms show ?thesis by (simp add: query_def keys_map_entries narrow_None)
next
  case (Some f)
  have "set (keys (narrow (Some f) truth)) \<subseteq> set (keys truth)"
    unfolding set_keys_narrow by blast
  with Some assms show ?thesis
    by (simp add: query_def keys_map_entries narrow_None set_keys_narrow)
qed

text \<open>
  Claim C5, against the backend modelled from the spec. Where the backend resolves the
  experiment and plugin to its ground truth, each of the four operations returns a mapping and
  no error, whatever the filter: the unfiltered result has exactly the run-tag pairs of the
  ground truth, the filtered result has only pairs of the unfiltered one, and with a filter
  it has exactly the pairs of the ground truth that pass it, so a run or tag that does not
  exist contributes no entry. An operation fails only where the backend itself fails.
\<close>

theorem results_hold_only_existing_pairs:
  "(scalar_store B e p = Inr st \<longrightarrow>
      (\<exists>d d0. list_scalars B e p flt = Inr d \<and> list_scalars B e p None = Inr d0
        \<and> set (keys d0) = set (keys st) \<and> set (keys d) \<subseteq> set (keys d0)
        \<and> (\<forall>f. flt = Some f \<longrightarrow>
              set (keys d) = {(run, tag). (run, tag) \<in> set (keys st) \<and> passes f run tag}))
    \<and> (\<exists>d d0. read_scalars B e p n flt = Inr d \<and> read_scalars B e p n None = Inr d0
        \<and> set (keys d0) = set (keys st) \<and> set (keys d) \<subseteq> set (keys d0)
        \<and> (\<forall>f. flt = Some f \<longrightarrow>
              set (keys d) = {(run, tag). (run, tag) \<in> set (keys st) \<and> passes f run tag})))
   \<and> (blob_sequence_store B e p = Inr bt \<longrightarrow>
      (\<exists>d d0. list_blob_sequences B e p flt = Inr d \<and> list_blob_sequences B e p None = Inr d0
        \<and> set (keys d0) = set (keys bt) \<and> set (keys d) \<subseteq> set (keys d0)
        \<and> (\<forall>f. flt = Some f \<longrightarrow>
              set (keys d) = {(run, tag). (run, tag) \<in> set (keys bt) \<and> passes f run tag}))
    \<and> (\<exists>d d0. read_blob_sequences B e p n flt = Inr d
        \<and> read_blob_sequences B e p n None = Inr d0
        \<and> set (keys d0) = set (keys bt) \<and> set (keys d) \<subseteq> set (keys d0)
        \<and> (\<forall>f. flt = Some f \<longrightarrow>
              set (keys d) = {(run, tag). (run, tag) \<in> set (keys bt) \<and> passes f run tag})))
   \<and> isl (list_scalars B e p flt) = isl (scalar_store B e p)
   \<and> isl (read_scalars B e p n flt) = isl (scalar_store B e p)
   \<and> isl (list_blob_sequences B e p flt) = isl (blob_sequence_store B e p)
   \<and> isl (read_blob_sequences B e p n flt) = isl (blob_sequence_store B e p)"
proof -
  have errs: "isl (query g resolved flt) = isl resolved" for g :: "'s \<Rightarrow> 'r" and resolved
    by (cases resolved) (simp_all add: query_def)
  show ?thesis
    unfolding list_scalars_def read_scalars_def list_blob_sequences_def read_blob_sequences_def
    by (intro conjI impI query_keys errs)
qed


theorem results_hold_only_existing_pairs_witness:
  "(\<exists>st. scalar_store exp1_backend ''exp1'' ''scalars'' = Inr st
        \<and> set (keys st) = {(''train'', ''loss'')})
   \<and> (\<exists>d. read_scalars exp1_backend ''exp1'' ''scalars'' (Some 10)
             (Some (RunTagFilter_init (Some [''eval'']) None)) = Inr d
        \<and> set (keys d) = {})
   \<and> read_scalars exp1_backend ''exp1'' ''scalars'' (Some 10)
        (Some (RunTagFilter_init (Some [''eval'']) None)) = Inr []
   \<and> read_scalars exp1_backend ''exp1'' ''scalars'' (Some 10)
        (Some (RunTagFilter_init (Some [''train'']) None))
      = Inr [(''train'', [(''loss'',
          [\<lparr>ScalarDatum.step = 0, ScalarDatum.wall_time = FNum 0, datum_value = FNum 1\<rparr>,
           \<lparr>ScalarDatum.step = 1, ScalarDatum.wall_time = FNum 1, datum_value = FNum (1/2)\<rparr>,
           \<lparr>ScalarDatum.step = 2, ScalarDatum.wall_time = FNum 2, datum_value = FNum (1/4)\<rparr>])])]
   \<and> blob_sequence_store exp1_backend ''exp1'' ''images'' = Inr []
   \<and> (\<exists>d. list_blob_sequences exp1_backend ''exp1'' ''images''
             (Some (RunTagFilter_init (Some [''eval'']) None)) = Inr d
        \<and> set (keys d) = {})"
  (is "?A \<and> ?B \<and> ?C \<and> ?D \<and> ?E \<and> ?F")
proof -
  let ?f = "RunTagFilter_init (Some [''eval'']) None"
  let ?st = "[(''train'', [(''loss'',
          \<lparr>metadata = \<lparr>max_step = 2, max_wall_time = FNum 2, plugin_content = [],
                        description = [], display_name = []\<rparr>,
           points =
             [\<lparr>ScalarDatum.step = 0, ScalarDatum.wall_time = FNum 0, datum_value = FNum 1\<rparr>,
              \<lparr>ScalarDatum.step = 1, ScalarDatum.wall_time = FNum 1, datum_value = FNum (1/2)\<rparr>,
              \<lparr>ScalarDatum.step = 2, ScalarDatum.wall_time = FNum 2, datum_value = FNum (1/4)\<rparr>]\<rparr>)])]"
  have st: "scalar_store exp1_backend ''exp1'' ''scalars'' = Inr ?st"
    by (simp add: exp1_backend_def)
  have kst: "set (keys ?st) = {(''train'', ''loss'')}"
    by (simp add: keys_def)
  have ev: "\<not> passes ?f ''train'' ''loss''"
    by (simp add: passes_def RunTagFilter_init_def frozenset_def)
  from results_hold_only_existing_pairs
    [where B = exp1_backend and e = "''exp1''" and p = "''scalars''" and st = ?st
       and flt = "Some ?f" and n = "Some 10",
     THEN conjunct1, THEN mp, OF st, THEN conjunct2]
  obtain d d0 where d: "read_scalars exp1_backend ''exp1'' ''scalars'' (Some 10) (Some ?f) = Inr d"
    and "read_scalars exp1_backend ''exp1'' ''scalars'' (Some 10) None = Inr d0"
    and al: "\<forall>f. Some ?f = Some f \<longrightarrow>
        set (keys d) = {(run, tag). (run, tag) \<in> set (keys ?st) \<and> passes f run tag}"
    by (elim exE conjE) (rule that)
  from al have "set (keys d) = {(run, tag). (run, tag) \<in> set (keys ?st) \<and> passes ?f run tag}"
    by simp
  with ev have kd: "set (keys d) = {}"
    unfolding kst by auto
  have a: ?A using st kst by (intro exI conjI)
  have b: ?B using d kd by (intro exI conjI)
  have dp: "downsample_scalars exp1_backend (Some 10) ps = take 10 ps" for ps
    by (simp add: exp1_backend_def)
  have c: ?C
    unfolding read_scalars_def st query_def
    by (simp add: narrow_def map_entries_def ev)
  have tr: "passes (RunTagFilter_init (Some [''train'']) None) ''train'' ''loss''"
    by (simp add: passes_def RunTagFilter_init_def frozenset_def)
  have d': ?D
    unfolding read_scalars_def st query_def
    by (simp add: narrow_def map_entries_def tr dp)
  have e: ?E
    by (simp add: exp1_backend_def)
  from results_hold_only_existing_pairs
    [where B = exp1_backend and e = "''exp1''" and p = "''images''" and bt = "[]"
       and flt = "Some ?f",
     THEN conjunct2, THEN conjunct1, THEN mp, OF e, THEN conjunct1]
  obtain l l0 where l: "list_blob_sequences exp1_backend ''exp1'' ''images'' (Some ?f) = Inr l"
    and "list_blob_sequences exp1_backend ''exp1'' ''images'' None = Inr l0"
    and l0: "set (keys l0) = set (keys ([] ::
        (BlobSequenceTimeSeries, BlobSequenceDatum) series run_tag_map))"
    and sub: "set (keys l) \<subseteq> set (keys l0)"
    by (elim exE conjE) (rule that)
  have k0: "set (keys ([] :: (BlobSequenceTimeSeries, BlobSequenceDatum) series run_tag_map)) = {}"
    by (simp add: keys_def)
  from l0 sub have kl: "set (keys l) = {}"
    unfolding k0 by simp
  have f: ?F using l kl by (intro exI conjI)
  from a b c d' e f show ?thesis by (intro conjI)
qed

end
